theory Spec2Isabelle
  imports Main
begin

section \<open>Python values: cells, coercions, string conversion\<close>

text \<open>
  The script \<^verbatim>\<open>data_quality_reconciliation.py\<close> is straight-line pandas code. A data
  frame is modelled as the list of its rows, a row as a record of its columns, and a
  nullable cell (\<^verbatim>\<open>NaN\<close>, \<^verbatim>\<open>None\<close>) as \<open>None\<close> of an option type.

  The raw customer identifier is the one column whose Python value matters (line 34 calls
  \<^verbatim>\<open>int\<close> on it), so it keeps the shape pandas gives it: missing, an integer, a finite
  float (\<open>FloatCell m e\<close> is the number \<open>m * 2 ^ e\<close>, which every finite binary float
  is), an infinite float, or text.

  The repository pins neither its pandas nor its Python version, and two library
  behaviours that the script meets differ between versions. They are the fields of
  \<open>runtime\<close>, so that every result holds for each of them:
  \<^item> \<open>astype_missing\<close>: what \<^verbatim>\<open>astype(str)\<close> makes of a missing value of the invoice
    column. Before pandas 3 it is the text \<^verbatim>\<open>nan\<close> (\<open>Some ''nan''\<close>); from pandas 3 on
    the value stays missing (\<open>None\<close>).
  \<^item> \<open>int_max_str_digits\<close>: the limit on the number of decimal digits that \<^verbatim>\<open>int\<close> reads
    from text and \<^verbatim>\<open>str\<close> writes, 4300 by default where Python has the limit; 0 is no
    limit.
\<close>

record runtime =
  astype_missing :: "string option"
  int_max_str_digits :: nat

datatype error = ValueError | OverflowError

datatype cell = Null | IntCell int | FloatCell int int | InfCell | StrCell string

definition notnull :: "cell \<Rightarrow> bool" where
  "notnull x = (x \<noteq> Null)"

definition digit_char :: "nat \<Rightarrow> char" where
  "digit_char d = char_of (48 + d)"

text \<open>\<^verbatim>\<open>str\<close> of a non-negative integer: its decimal digits, most significant first.\<close>

function str_nat :: "nat \<Rightarrow> string" where
  "str_nat n = (if n < 10 then [digit_char n] else str_nat (n div 10) @ [digit_char (n mod 10)])"
  by pat_completeness auto
termination
  by (relation "measure (\<lambda>n. n)") auto

declare str_nat.simps [simp del]

definition str_int :: "int \<Rightarrow> string" where
  "str_int i = (if i < 0 then CHR ''-'' # str_nat (nat (- i)) else str_nat (nat i))"

definition is_digit :: "char \<Rightarrow> bool" where
  "is_digit c = (c \<in> set ''0123456789'')"

definition digit_val :: "char \<Rightarrow> nat" where
  "digit_val c = of_char c - 48"

definition nat_of_digits :: "string \<Rightarrow> nat" where
  "nat_of_digits ds = foldl (\<lambda>a c. 10 * a + digit_val c) 0 ds"

text \<open>
  The digit limit of \<^verbatim>\<open>int\<close> and \<^verbatim>\<open>str\<close>: a conversion of more than \<open>lim\<close> digits
  raises \<^verbatim>\<open>ValueError\<close>. CPython looks at the limit only beyond 640 characters (\<open>len\<close>
  counts the sign for \<^verbatim>\<open>str\<close>, \<open>digits\<close> never does).
\<close>

definition over_limit :: "nat \<Rightarrow> nat \<Rightarrow> nat \<Rightarrow> bool" where
  "over_limit lim len digits = (640 < len \<and> 0 < lim \<and> lim < digits)"

text \<open>\<^verbatim>\<open>str(i)\<close> of a Python integer.\<close>

definition py_str :: "nat \<Rightarrow> int \<Rightarrow> error + string" where
  "py_str lim i =
     (if over_limit lim (length (str_int i)) (length (str_nat (nat \<bar>i\<bar>))) then Inl ValueError
      else Inr (str_int i))"

text \<open>
  \<^verbatim>\<open>int(s)\<close> for text whose characters are code points below 256. CPython skips, at both
  ends, the six ASCII blanks; a space character from 127 on (here \<^verbatim>\<open>0x85\<close> and
  \<^verbatim>\<open>0xA0\<close>) is first turned into a blank, while the separators \<^verbatim>\<open>0x1C\<close> to \<^verbatim>\<open>0x1F\<close>
  are left as they are and are not skipped. One sign is allowed, and the digits may be
  grouped by single underscores. Anything else is rejected (\<^verbatim>\<open>ValueError\<close>), and so is a
  number over the digit limit.
\<close>

definition py_isspace :: "char \<Rightarrow> bool" where
  "py_isspace c = (c \<in> set [CHR 0x09, CHR 0x0A, CHR 0x0B, CHR 0x0C, CHR 0x0D, CHR 0x20,
                            CHR 0x85, CHR 0xA0])"

definition strip :: "string \<Rightarrow> string" where
  "strip s = rev (dropWhile py_isspace (rev (dropWhile py_isspace s)))"

fun digit_groups :: "string \<Rightarrow> bool" where
  "digit_groups [] = False"
| "digit_groups [c] = is_digit c"
| "digit_groups (c # d # cs) =
     (if is_digit c then (if d = CHR ''_'' then digit_groups cs else digit_groups (d # cs))
      else False)"

definition int_of_digits :: "nat \<Rightarrow> string \<Rightarrow> int option" where
  "int_of_digits lim body =
     (if digit_groups body
      then (let ds = filter is_digit body
            in if over_limit lim (length ds) (length ds) then None
               else Some (int (nat_of_digits ds)))
      else None)"

definition int_of_str :: "nat \<Rightarrow> string \<Rightarrow> int option" where
  "int_of_str lim s =
     (case strip s of
        [] \<Rightarrow> None
      | c # cs \<Rightarrow>
          if c = CHR ''-'' then map_option uminus (int_of_digits lim cs)
          else if c = CHR ''+'' then int_of_digits lim cs
          else int_of_digits lim (c # cs))"

text \<open>
  \<^verbatim>\<open>int(x)\<close> of a float truncates towards zero; of an infinity it raises
  \<^verbatim>\<open>OverflowError\<close>, of a NaN \<^verbatim>\<open>ValueError\<close> (line 34 never passes it a null cell).
\<close>

definition trunc :: "int \<Rightarrow> int \<Rightarrow> int" where
  "trunc m e = (if 0 \<le> e then m * 2 ^ nat e else sgn m * (\<bar>m\<bar> div 2 ^ nat (- e)))"

fun py_int :: "nat \<Rightarrow> cell \<Rightarrow> error + int" where
  "py_int lim Null = Inl ValueError"
| "py_int lim (IntCell i) = Inr i"
| "py_int lim (FloatCell m e) = Inr (trunc m e)"
| "py_int lim InfCell = Inl OverflowError"
| "py_int lim (StrCell s) =
     (case int_of_str lim s of None \<Rightarrow> Inl ValueError | Some i \<Rightarrow> Inr i)"

section \<open>Step 1: transactions\<close>

text \<open>
  A raw row after lines 11 to 24: \<^verbatim>\<open>invoice\<close> is read as text, \<^verbatim>\<open>quantity\<close> and
  \<^verbatim>\<open>price\<close> have been through \<^verbatim>\<open>pd.to_numeric(errors='coerce')\<close>, so a value that is
  not a number is already \<open>None\<close>. The type \<open>'n\<close> of the numbers that are present is left
  open: only its product and its comparison with zero are used, and no law of arithmetic
  is assumed of them, so every result holds for machine floats and integers as well. The
  type \<open>'v\<close> of the columns that are passed through is open too.
\<close>

record ('n, 'v) raw_row =
  r_invoice :: "string option"
  r_stockcode :: "'v option"
  r_description :: "'v option"
  r_quantity :: "'n option"
  r_invoicedate :: "'v option"
  r_price :: "'n option"
  r_customer_id :: cell
  r_country :: "'v option"

record ('n, 'v) transaction =
  txn_id :: "string option"
  customer_id :: "string option"
  amount :: "'n option"
  txn_date :: "'v option"
  invoice :: "string option"
  stockcode :: "'v option"
  description :: "'v option"
  country :: "'v option"

text \<open>Line 27: the product of two columns; a missing factor gives a missing product.\<close>

definition mul_cells :: "'n::times option \<Rightarrow> 'n option \<Rightarrow> 'n option" where
  "mul_cells q p = (case q of None \<Rightarrow> None | Some a \<Rightarrow> (case p of None \<Rightarrow> None | Some b \<Rightarrow> Some (a * b)))"

text \<open>
  \<^verbatim>\<open>astype(str)\<close> on the invoice column: text stays as it is, and a missing invoice
  becomes what the pandas version makes of it.
\<close>

definition astype_str :: "runtime \<Rightarrow> string option \<Rightarrow> string option" where
  "astype_str rt x = (case x of None \<Rightarrow> astype_missing rt | Some s \<Rightarrow> Some s)"

text \<open>\<^verbatim>\<open>+\<close> on two text columns: a missing operand gives a missing result.\<close>

definition add_str :: "string option \<Rightarrow> string option \<Rightarrow> string option" where
  "add_str a b =
     (case a of None \<Rightarrow> None | Some s \<Rightarrow> (case b of None \<Rightarrow> None | Some t \<Rightarrow> Some (s @ t)))"

text \<open>
  Line 31: invoice, a hyphen, and the row's position from \<^verbatim>\<open>reset_index\<close>, which is
  an integer column and never missing.
\<close>

definition make_txn_id :: "runtime \<Rightarrow> string option \<Rightarrow> nat \<Rightarrow> string option" where
  "make_txn_id rt iv i = add_str (add_str (astype_str rt iv) (Some ''-'')) (Some (str_nat i))"

text \<open>Line 34: \<^verbatim>\<open>str(int(x)) if pd.notnull(x) else None\<close>.\<close>

definition normalize_customer :: "runtime \<Rightarrow> cell \<Rightarrow> error + string option" where
  "normalize_customer rt x =
     (if notnull x
      then (case py_int (int_max_str_digits rt) x of
              Inl e \<Rightarrow> Inl e
            | Inr i \<Rightarrow> (case py_str (int_max_str_digits rt) i of
                         Inl e \<Rightarrow> Inl e
                       | Inr s \<Rightarrow> Inr (Some s)))
      else Inr None)"

text \<open>\<^verbatim>\<open>Series.apply\<close> runs down the column and stops at the first cell that raises.\<close>

fun apply_customer :: "runtime \<Rightarrow> cell list \<Rightarrow> error + string option list" where
  "apply_customer rt [] = Inr []"
| "apply_customer rt (x # xs) =
     (case normalize_customer rt x of
        Inl e \<Rightarrow> Inl e
      | Inr c \<Rightarrow> (case apply_customer rt xs of Inl e \<Rightarrow> Inl e | Inr cs \<Rightarrow> Inr (c # cs)))"

definition make_transaction ::
  "runtime \<Rightarrow> nat \<times> ('n::times, 'v) raw_row \<Rightarrow> string option \<Rightarrow> ('n, 'v) transaction" where
  "make_transaction rt ir c =
     \<lparr>txn_id = make_txn_id rt (r_invoice (snd ir)) (fst ir),
      customer_id = c,
      amount = mul_cells (r_quantity (snd ir)) (r_price (snd ir)),
      txn_date = r_invoicedate (snd ir),
      invoice = r_invoice (snd ir),
      stockcode = r_stockcode (snd ir),
      description = r_description (snd ir),
      country = r_country (snd ir)\<rparr>"

definition normalize ::
  "runtime \<Rightarrow> ('n::times, 'v) raw_row list \<Rightarrow> error + ('n, 'v) transaction list" where
  "normalize rt rows =
     (case apply_customer rt (map r_customer_id rows) of
        Inl e \<Rightarrow> Inl e
      | Inr cs \<Rightarrow> Inr (map2 (make_transaction rt) (enumerate 0 rows) cs))"

section \<open>Step 2: master records\<close>

record master_record =
  m_customer_id :: "string option"
  m_customer_name :: string
  m_account_status :: string

definition dropna :: "'a option list \<Rightarrow> 'a option list" where
  "dropna col = filter (\<lambda>x. x \<noteq> None) col"

text \<open>\<^verbatim>\<open>drop_duplicates\<close> keeps the first occurrence of every value, in order.\<close>

fun drop_duplicates_from :: "'a list \<Rightarrow> 'a list \<Rightarrow> 'a list" where
  "drop_duplicates_from seen [] = []"
| "drop_duplicates_from seen (x # xs) =
     (if x \<in> set seen then drop_duplicates_from seen xs
      else x # drop_duplicates_from (x # seen) xs)"

definition drop_duplicates :: "'a list \<Rightarrow> 'a list" where
  "drop_duplicates xs = drop_duplicates_from [] xs"

text \<open>The f-string \<^verbatim>\<open>f"cust_{x}"\<close>; Python formats \<^verbatim>\<open>None\<close> as the text \<^verbatim>\<open>None\<close>.\<close>

definition format_cell :: "string option \<Rightarrow> string" where
  "format_cell x = (case x of None \<Rightarrow> ''None'' | Some s \<Rightarrow> s)"

definition make_master :: "string option \<Rightarrow> master_record" where
  "make_master x =
     \<lparr>m_customer_id = x, m_customer_name = ''cust_'' @ format_cell x, m_account_status = ''ACTIVE''\<rparr>"

text \<open>Lines 45 to 47.\<close>

definition derive_master :: "('n, 'v) transaction list \<Rightarrow> master_record list" where
  "derive_master ts = map make_master (drop_duplicates (dropna (map customer_id ts)))"

section \<open>Step 3: the rule table\<close>

definition rules_df :: "(string \<times> string \<times> string) list" where
  "rules_df =
     [(''R003'', ''Customer not found in master'', ''blocking''),
      (''R004'', ''Negative transaction amount'', ''high''),
      (''R005'', ''Unmatched transaction record'', ''high'')]"

section \<open>Step 4: data-quality checks\<close>

text \<open>
  \<^verbatim>\<open>df.isnull()\<close> turns a frame into its columns of truth values; the two frames of the
  script are given with their column names, in the frame's column order.
\<close>

definition isnull_master :: "master_record list \<Rightarrow> (string \<times> bool list) list" where
  "isnull_master ms =
     [(''customer_id'', map (\<lambda>m. m_customer_id m = None) ms),
      (''customer_name'', map (\<lambda>m. False) ms),
      (''account_status'', map (\<lambda>m. False) ms)]"

definition isnull_transactions :: "('n, 'v) transaction list \<Rightarrow> (string \<times> bool list) list" where
  "isnull_transactions ts =
     [(''txn_id'', map (\<lambda>t. txn_id t = None) ts),
      (''customer_id'', map (\<lambda>t. customer_id t = None) ts),
      (''amount'', map (\<lambda>t. amount t = None) ts),
      (''txn_date'', map (\<lambda>t. txn_date t = None) ts),
      (''invoice'', map (\<lambda>t. invoice t = None) ts),
      (''stockcode'', map (\<lambda>t. stockcode t = None) ts),
      (''description'', map (\<lambda>t. description t = None) ts),
      (''country'', map (\<lambda>t. country t = None) ts)]"

record 'c dq_row =
  column :: string
  null_count :: nat
  table_name :: string
  timestamp :: 'c

text \<open>Lines 61 to 65: one row per column, with the number of nulls and the table's name.\<close>

definition check_nulls :: "(string \<times> bool list) list \<Rightarrow> string \<Rightarrow> (string \<times> nat \<times> string) list" where
  "check_nulls df name = map (\<lambda>(c, nulls). (c, length (filter (\<lambda>b. b) nulls), name)) df"

text \<open>
  Lines 67 to 77: the report that is written. \<^verbatim>\<open>datetime.now()\<close> is the argument
  \<open>now\<close>: the one value of the run that does not come from the input.
\<close>

definition dq_report ::
  "'c \<Rightarrow> master_record list \<Rightarrow> ('n, 'v) transaction list \<Rightarrow> 'c dq_row list" where
  "dq_report now ms ts =
     map (\<lambda>(c, n, t). \<lparr>column = c, null_count = n, table_name = t, timestamp = now\<rparr>)
       (check_nulls (isnull_master ms) ''master_records''
        @ check_nulls (isnull_transactions ts) ''transactions'')"

text \<open>
  Lines 73 and 74: \<^verbatim>\<open>duplicated(subset=[k], keep=False)\<close> selects every row whose key
  occurs more than once. The script assigns both frames and never reads them again.
\<close>

definition dup_master :: "master_record list \<Rightarrow> master_record list" where
  "dup_master ms = filter (\<lambda>m. 1 < count_list (map m_customer_id ms) (m_customer_id m)) ms"

definition dup_txn :: "('n, 'v) transaction list \<Rightarrow> ('n, 'v) transaction list" where
  "dup_txn ts = filter (\<lambda>t. 1 < count_list (map txn_id ts) (txn_id t)) ts"

section \<open>Steps 5 and 6: rules and reconciliation\<close>

record exception_row =
  rule_id :: string
  exc_description :: string
  exc_txn_id :: "string option"
  exc_customer_id :: "string option"
  severity :: string

text \<open>\<^verbatim>\<open>Series.isin\<close>: membership among the values of the other column.\<close>

definition isin :: "'a \<Rightarrow> 'a list \<Rightarrow> bool" where
  "isin x vals = (x \<in> set vals)"

text \<open>Lines 84 to 87.\<close>

definition unknown_customers ::
  "('n, 'v) transaction list \<Rightarrow> master_record list \<Rightarrow> ('n, 'v) transaction list" where
  "unknown_customers ts ms =
     filter (\<lambda>t. customer_id t \<noteq> None \<and> \<not> isin (customer_id t) (map m_customer_id ms)) ts"

definition r003 :: "('n, 'v) transaction list \<Rightarrow> master_record list \<Rightarrow> exception_row list" where
  "r003 ts ms =
     map (\<lambda>row. \<lparr>rule_id = ''R003'', exc_description = ''Customer not found in master'',
                  exc_txn_id = txn_id row, exc_customer_id = customer_id row,
                  severity = ''blocking''\<rparr>)
       (unknown_customers ts ms)"

text \<open>Line 98: a comparison with a missing amount is false.\<close>

definition lt_zero :: "'n::{zero, ord} option \<Rightarrow> bool" where
  "lt_zero a = (case a of None \<Rightarrow> False | Some v \<Rightarrow> v < 0)"

definition negative_txns :: "('n::{zero, ord}, 'v) transaction list \<Rightarrow> ('n, 'v) transaction list" where
  "negative_txns ts = filter (\<lambda>t. lt_zero (amount t)) ts"

definition r004 :: "('n::{zero, ord}, 'v) transaction list \<Rightarrow> exception_row list" where
  "r004 ts =
     map (\<lambda>row. \<lparr>rule_id = ''R004'',
                  exc_description = ''Negative transaction amount (return or cancellation)'',
                  exc_txn_id = txn_id row, exc_customer_id = customer_id row,
                  severity = ''high''\<rparr>)
       (negative_txns ts)"

record ('n, 'v) reconciled_row = "('n, 'v) transaction" +
  customer_name :: "string option"
  account_status :: "string option"
  match_status :: "string option"

text \<open>
  Line 109: the left merge on \<^verbatim>\<open>customer_id\<close> with its indicator column. Every
  transaction, in order, is paired with each master row of the same key (pandas also
  pairs a null key with a null key); with no such row it is kept once, marked
  \<^verbatim>\<open>left_only\<close>.
\<close>

definition merge_row ::
  "('n, 'v) transaction \<Rightarrow> master_record list \<Rightarrow> (master_record option \<times> string) list" where
  "merge_row t ms =
     (case filter (\<lambda>m. m_customer_id m = customer_id t) ms of
        [] \<Rightarrow> [(None, ''left_only'')]
      | hits \<Rightarrow> map (\<lambda>m. (Some m, ''both'')) hits)"

text \<open>Lines 110 to 113: \<^verbatim>\<open>Series.map\<close> with a dictionary; a key outside it gives a null.\<close>

definition status_of :: "string \<Rightarrow> string option" where
  "status_of ind = map_of [(''both'', ''MATCHED''), (''left_only'', ''UNMATCHED'')] ind"

definition make_reconciled ::
  "('n, 'v) transaction \<Rightarrow> master_record option \<times> string \<Rightarrow> ('n, 'v) reconciled_row" where
  "make_reconciled t mi =
     \<lparr>txn_id = txn_id t, customer_id = customer_id t, amount = amount t,
      txn_date = txn_date t, invoice = invoice t, stockcode = stockcode t,
      description = description t, country = country t,
      customer_name = map_option m_customer_name (fst mi),
      account_status = map_option m_account_status (fst mi),
      match_status = status_of (snd mi)\<rparr>"

definition reconcile ::
  "('n, 'v) transaction list \<Rightarrow> master_record list \<Rightarrow> ('n, 'v) reconciled_row list" where
  "reconcile ts ms = concat (map (\<lambda>t. map (make_reconciled t) (merge_row t ms)) ts)"

text \<open>Lines 117 to 124.\<close>

definition r005 :: "('n, 'v) reconciled_row list \<Rightarrow> exception_row list" where
  "r005 rs =
     map (\<lambda>row. \<lparr>rule_id = ''R005'', exc_description = ''Unmatched transaction record'',
                  exc_txn_id = txn_id row, exc_customer_id = customer_id row,
                  severity = ''high''\<rparr>)
       (filter (\<lambda>r. match_status r = Some ''UNMATCHED'') rs)"

section \<open>The whole run\<close>

text \<open>
  The six files the script writes. The only statement that can raise on a well-formed
  frame is line 34, and it comes before the first \<^verbatim>\<open>to_csv\<close> (line 41): a run that
  raises has written nothing, so its result is the error alone.
\<close>

record ('n, 'v, 'c) outputs =
  transactions_csv :: "('n, 'v) transaction list"
  master_records_csv :: "master_record list"
  reconciliation_rules_csv :: "(string \<times> string \<times> string) list"
  data_quality_report_csv :: "'c dq_row list"
  reconciliation_results_csv :: "('n, 'v) reconciled_row list"
  exceptions_report_csv :: "exception_row list"

text \<open>
  Lines 60 to 129 read the two frames \<^verbatim>\<open>transactions\<close> and \<^verbatim>\<open>master\<close> and nothing else
  of the input: they are \<open>run_from\<close>, for any two frames.
\<close>

definition run_from ::
  "'c \<Rightarrow> ('n::{zero, ord}, 'v) transaction list \<Rightarrow> master_record list \<Rightarrow> ('n, 'v, 'c) outputs" where
  "run_from now transactions master =
     (let report = dq_report now master transactions;
          exceptions = [] @ r003 transactions master;
          exceptions = exceptions @ r004 transactions;
          reconciled = reconcile transactions master;
          exceptions = exceptions @ r005 reconciled
      in \<lparr>transactions_csv = transactions,
          master_records_csv = master,
          reconciliation_rules_csv = rules_df,
          data_quality_report_csv = report,
          reconciliation_results_csv = reconciled,
          exceptions_report_csv = exceptions\<rparr>)"

text \<open>Lines 44 to 129: the master frame is derived from the transactions (line 45).\<close>

definition run_steps ::
  "'c \<Rightarrow> ('n::{zero, ord}, 'v) transaction list \<Rightarrow> ('n, 'v, 'c) outputs" where
  "run_steps now transactions = run_from now transactions (derive_master transactions)"

definition pipeline ::
  "runtime \<Rightarrow> 'c \<Rightarrow> ('n::{times, zero, ord}, 'v) raw_row list \<Rightarrow> error + ('n, 'v, 'c) outputs" where
  "pipeline rt now rows =
     (case normalize rt rows of
        Inl e \<Rightarrow> Inl e
      | Inr transactions \<Rightarrow> Inr (run_steps now transactions))"

text \<open>The four tables of the determinism property, without the data-quality report.\<close>

definition four_tables ::
  "('n, 'v, 'c) outputs \<Rightarrow>
   ('n, 'v) transaction list \<times> master_record list \<times> ('n, 'v) reconciled_row list \<times> exception_row list" where
  "four_tables out =
     (transactions_csv out, master_records_csv out, reconciliation_results_csv out,
      exceptions_report_csv out)"

section \<open>The scenario of the specification\<close>

text \<open>
  Two lines of invoice \<^verbatim>\<open>A1\<close>: customer 7 buys two items at 3, and a return of one item
  at 5 has no customer. Used apart: a line with an alphanumeric customer, a line without
  invoice, and four transactions of customers 7, 9, 5 and of no customer against a
  master from another source, which knows customer 9 only.
\<close>

definition pandas_2 :: runtime where
  "pandas_2 = \<lparr>astype_missing = Some ''nan'', int_max_str_digits = 4300\<rparr>"

definition pandas_3 :: runtime where
  "pandas_3 = \<lparr>astype_missing = None, int_max_str_digits = 4300\<rparr>"

definition line_a :: "(int, string) raw_row" where
  "line_a = \<lparr>r_invoice = Some ''A1'', r_stockcode = Some ''85048'', r_description = None,
     r_quantity = Some 2, r_invoicedate = Some ''2010-12-01'', r_price = Some 3,
     r_customer_id = FloatCell 7 0, r_country = Some ''UK''\<rparr>"

definition line_b :: "(int, string) raw_row" where
  "line_b = \<lparr>r_invoice = Some ''A1'', r_stockcode = Some ''22041'', r_description = None,
     r_quantity = Some (- 1), r_invoicedate = Some ''2010-12-01'', r_price = Some 5,
     r_customer_id = Null, r_country = Some ''UK''\<rparr>"

definition line_c :: "(int, string) raw_row" where
  "line_c = \<lparr>r_invoice = Some ''A2'', r_stockcode = Some ''22041'', r_description = None,
     r_quantity = Some 1, r_invoicedate = Some ''2010-12-02'', r_price = Some 5,
     r_customer_id = StrCell ''C12'', r_country = Some ''UK''\<rparr>"

definition line_n :: "(int, string) raw_row" where
  "line_n = \<lparr>r_invoice = None, r_stockcode = Some ''22041'', r_description = None,
     r_quantity = Some 1, r_invoicedate = Some ''2010-12-02'', r_price = Some 5,
     r_customer_id = Null, r_country = Some ''UK''\<rparr>"

definition txn_a :: "(int, string) transaction" where
  "txn_a = \<lparr>txn_id = Some ''A1-0'', customer_id = Some ''7'', amount = Some 6,
     txn_date = Some ''2010-12-01'', invoice = Some ''A1'', stockcode = Some ''85048'',
     description = None, country = Some ''UK''\<rparr>"

definition txn_b :: "(int, string) transaction" where
  "txn_b = \<lparr>txn_id = Some ''A1-1'', customer_id = None, amount = Some (- 5),
     txn_date = Some ''2010-12-01'', invoice = Some ''A1'', stockcode = Some ''22041'',
     description = None, country = Some ''UK''\<rparr>"

definition master_7 :: master_record where
  "master_7 = \<lparr>m_customer_id = Some ''7'', m_customer_name = ''cust_7'',
     m_account_status = ''ACTIVE''\<rparr>"

definition recon_a :: "(int, string) reconciled_row" where
  "recon_a = \<lparr>txn_id = Some ''A1-0'', customer_id = Some ''7'', amount = Some 6,
     txn_date = Some ''2010-12-01'', invoice = Some ''A1'', stockcode = Some ''85048'',
     description = None, country = Some ''UK'', customer_name = Some ''cust_7'',
     account_status = Some ''ACTIVE'', match_status = Some ''MATCHED''\<rparr>"

definition recon_b :: "(int, string) reconciled_row" where
  "recon_b = \<lparr>txn_id = Some ''A1-1'', customer_id = None, amount = Some (- 5),
     txn_date = Some ''2010-12-01'', invoice = Some ''A1'', stockcode = Some ''22041'',
     description = None, country = Some ''UK'', customer_name = None,
     account_status = None, match_status = Some ''UNMATCHED''\<rparr>"

definition txn_of :: "string \<Rightarrow> string option \<Rightarrow> int \<Rightarrow> (int, string) transaction" where
  "txn_of i c a = \<lparr>txn_id = Some i, customer_id = c, amount = Some a, txn_date = None,
     invoice = Some ''B7'', stockcode = None, description = None, country = None\<rparr>"

definition foreign_txns :: "(int, string) transaction list" where
  "foreign_txns =
     [txn_of ''B7-0'' (Some ''7'') (- 4), txn_of ''B7-1'' None 6,
      txn_of ''B7-2'' (Some ''9'') (- 1), txn_of ''B7-3'' (Some ''5'') 2]"

definition foreign_master :: "master_record list" where
  "foreign_master = [make_master (Some ''9'')]"

definition scenario_out :: "(int, string, nat) outputs" where
  "scenario_out = run_steps 0 [txn_a, txn_b]"

section \<open>Decimal strings and transaction identifiers\<close>

lemma digit_val_digit_char: "d < 10 \<Longrightarrow> digit_val (digit_char d) = d"
  by (simp add: digit_val_def digit_char_def)

lemma digit_char_not_hyphen: "d < 10 \<Longrightarrow> digit_char d \<noteq> CHR ''-''"
proof
  assume d: "d < 10" and eq: "digit_char d = CHR ''-''"
  from eq have "of_char (digit_char d) = (of_char (CHR ''-'') :: nat)" by simp
  with d show False by (simp add: digit_char_def)
qed

lemma nat_of_digits_snoc: "nat_of_digits (ds @ [c]) = 10 * nat_of_digits ds + digit_val c"
  by (simp add: nat_of_digits_def)

lemma nat_of_digits_str_nat: "nat_of_digits (str_nat n) = n"
proof (induction n rule: str_nat.induct)
  case (1 n)
  show ?case
  proof (cases "n < 10")
    case True
    then show ?thesis by (subst str_nat.simps) (simp add: nat_of_digits_def digit_val_digit_char)
  next
    case False
    with 1 have ih: "nat_of_digits (str_nat (n div 10)) = n div 10" by simp
    have "str_nat n = str_nat (n div 10) @ [digit_char (n mod 10)]"
      using False by (subst str_nat.simps) simp
    then show ?thesis by (simp add: nat_of_digits_snoc ih digit_val_digit_char)
  qed
qed

lemma str_nat_inj: "str_nat m = str_nat n \<Longrightarrow> m = n"
  by (metis nat_of_digits_str_nat)

lemma hyphen_notin_str_nat: "CHR ''-'' \<notin> set (str_nat n)"
proof (induction n rule: str_nat.induct)
  case (1 n)
  show ?case
  proof (cases "n < 10")
    case True
    then show ?thesis using digit_char_not_hyphen[of n] by (subst str_nat.simps) auto
  next
    case False
    with 1 have ih: "CHR ''-'' \<notin> set (str_nat (n div 10))" by simp
    have "n mod 10 < 10" by simp
    then have "digit_char (n mod 10) \<noteq> CHR ''-''" by (rule digit_char_not_hyphen)
    with ih False show ?thesis by (subst str_nat.simps) auto
  qed
qed

lemma suffix_after_last:
  assumes "a @ c # s = b @ c # t" and "c \<notin> set s" and "c \<notin> set t"
  shows "s = t"
proof -
  have "takeWhile (\<lambda>x. x \<noteq> c) (rev (a @ c # s)) = rev s"
    using assms(2) by (auto simp: takeWhile_tail)
  moreover have "takeWhile (\<lambda>x. x \<noteq> c) (rev (b @ c # t)) = rev t"
    using assms(3) by (auto simp: takeWhile_tail)
  ultimately have "rev s = rev t" using assms(1) by simp
  then show ?thesis by simp
qed

lemma make_txn_id_Some:
  "make_txn_id rt iv i = Some s \<longleftrightarrow> (\<exists>iv0. astype_str rt iv = Some iv0 \<and> s = iv0 @ ''-'' @ str_nat i)"
  by (auto simp: make_txn_id_def add_str_def split: option.splits)

lemma make_txn_id_invoice: "make_txn_id rt (Some iv0) i = Some (iv0 @ ''-'' @ str_nat i)"
  by (simp add: make_txn_id_def add_str_def astype_str_def)

lemma make_txn_id_missing:
  "make_txn_id rt None i = map_option (\<lambda>iv0. iv0 @ ''-'' @ str_nat i) (astype_missing rt)"
  by (simp add: make_txn_id_def add_str_def astype_str_def split: option.splits)

lemma make_txn_id_inj:
  assumes "make_txn_id rt a i = make_txn_id rt b j" and "make_txn_id rt a i \<noteq> None"
  shows "i = j"
proof -
  from assms(2) obtain s where s: "make_txn_id rt a i = Some s" by blast
  then obtain x where x: "s = x @ ''-'' @ str_nat i" by (auto simp: make_txn_id_Some)
  from s assms(1) have "make_txn_id rt b j = Some s" by simp
  then obtain y where y: "s = y @ ''-'' @ str_nat j" by (auto simp: make_txn_id_Some)
  from x y have "x @ CHR ''-'' # str_nat i = y @ CHR ''-'' # str_nat j" by simp
  then have "str_nat i = str_nat j"
    by (rule suffix_after_last) (rule hyphen_notin_str_nat)+
  then show "i = j" by (rule str_nat_inj)
qed

lemma apply_customer_length: "apply_customer rt xs = Inr cs \<Longrightarrow> length cs = length xs"
  by (induction xs arbitrary: cs) (auto split: sum.splits)

lemma apply_customer_nth:
  "apply_customer rt xs = Inr cs \<Longrightarrow> i < length xs \<Longrightarrow> normalize_customer rt (xs ! i) = Inr (cs ! i)"
proof (induction xs arbitrary: cs i)
  case Nil
  then show ?case by simp
next
  case (Cons x xs)
  then show ?case by (cases i) (auto split: sum.splits)
qed

lemma apply_customer_error:
  "x \<in> set xs \<Longrightarrow> normalize_customer rt x = Inl e \<Longrightarrow> \<exists>e'. apply_customer rt xs = Inl e'"
  by (induction xs) (auto split: sum.splits)

lemma normalize_Inr:
  assumes "normalize rt rows = Inr ts"
  obtains cs where "apply_customer rt (map r_customer_id rows) = Inr cs"
    and "length cs = length rows"
    and "ts = map2 (make_transaction rt) (enumerate 0 rows) cs"
proof -
  from assms obtain cs where cs: "apply_customer rt (map r_customer_id rows) = Inr cs"
    and ts: "ts = map2 (make_transaction rt) (enumerate 0 rows) cs"
    by (auto simp: normalize_def split: sum.splits)
  from cs have "length cs = length rows" by (auto dest: apply_customer_length)
  with cs show thesis using ts by (rule that)
qed

lemma normalize_length: "normalize rt rows = Inr ts \<Longrightarrow> length ts = length rows"
  by (erule normalize_Inr) simp

lemma normalize_nth:
  assumes "normalize rt rows = Inr ts" and "i < length rows"
  shows "txn_id (ts ! i) = make_txn_id rt (r_invoice (rows ! i)) i"
    and "normalize_customer rt (r_customer_id (rows ! i)) = Inr (customer_id (ts ! i))"
    and "amount (ts ! i) = mul_cells (r_quantity (rows ! i)) (r_price (rows ! i))"
proof -
  from assms(1) obtain cs where cs: "apply_customer rt (map r_customer_id rows) = Inr cs"
    and len: "length cs = length rows"
    and ts: "ts = map2 (make_transaction rt) (enumerate 0 rows) cs"
    by (rule normalize_Inr)
  from assms(2) len have nth: "ts ! i = make_transaction rt (i, rows ! i) (cs ! i)"
    by (simp add: ts nth_enumerate_eq)
  show "txn_id (ts ! i) = make_txn_id rt (r_invoice (rows ! i)) i"
    by (simp add: nth make_transaction_def)
  show "amount (ts ! i) = mul_cells (r_quantity (rows ! i)) (r_price (rows ! i))"
    by (simp add: nth make_transaction_def)
  from apply_customer_nth[OF cs, of i] assms(2)
  show "normalize_customer rt (r_customer_id (rows ! i)) = Inr (customer_id (ts ! i))"
    by (simp add: nth make_transaction_def)
qed

text \<open>
  A transaction identifier that is not null belongs to one position only. Where
  \<^verbatim>\<open>astype(str)\<close> writes text for a missing invoice, no identifier is null and all are
  distinct.
\<close>

lemma normalize_txn_id_position:
  assumes "normalize rt rows = Inr ts" and "i < length ts" and "j < length ts"
    and "txn_id (ts ! i) = txn_id (ts ! j)" and "txn_id (ts ! i) \<noteq> None"
  shows "i = j"
proof -
  have len: "length ts = length rows" using assms(1) by (rule normalize_length)
  from assms(2-4) len
  have "make_txn_id rt (r_invoice (rows ! i)) i = make_txn_id rt (r_invoice (rows ! j)) j"
    by (simp add: normalize_nth(1)[OF assms(1)])
  moreover from assms(2,5) len have "make_txn_id rt (r_invoice (rows ! i)) i \<noteq> None"
    by (simp add: normalize_nth(1)[OF assms(1)])
  ultimately show "i = j" by (rule make_txn_id_inj)
qed

lemma normalize_txn_id_unique:
  assumes "normalize rt rows = Inr ts" and "t \<in> set ts" and "t' \<in> set ts"
    and "txn_id t = txn_id t'" and "txn_id t \<noteq> None"
  shows "t = t'"
proof -
  from assms(2) obtain i where i: "i < length ts" "ts ! i = t" by (auto simp: in_set_conv_nth)
  from assms(3) obtain j where j: "j < length ts" "ts ! j = t'" by (auto simp: in_set_conv_nth)
  from assms(4,5) i j have "i = j"
    by (intro normalize_txn_id_position[OF assms(1)]) simp_all
  with i j show ?thesis by simp
qed

lemma normalize_txn_id_with_invoice:
  assumes "normalize rt rows = Inr ts" and "i < length rows"
    and "r_invoice (rows ! i) = Some iv0 \<or> astype_missing rt = Some iv0 \<and> r_invoice (rows ! i) = None"
  shows "txn_id (ts ! i) = Some (iv0 @ ''-'' @ str_nat i)"
  using assms(3) normalize_nth(1)[OF assms(1,2)]
  by (auto simp: make_txn_id_invoice make_txn_id_missing)

lemma normalize_distinct_txn_id:
  assumes "normalize rt rows = Inr ts" and "astype_missing rt \<noteq> None"
  shows "distinct (map txn_id ts)"
proof -
  have len: "length ts = length rows" using assms(1) by (rule normalize_length)
  have nn: "txn_id (ts ! i) \<noteq> None" if "i < length ts" for i
    using that len assms(2) normalize_nth(1)[OF assms(1), of i]
    by (cases "r_invoice (rows ! i)") (auto simp: make_txn_id_invoice make_txn_id_missing)
  have "txn_id (ts ! i) \<noteq> txn_id (ts ! j)" if "i < length ts" "j < length ts" "i \<noteq> j" for i j
    using that nn[of i] normalize_txn_id_position[OF assms(1), of i j] by blast
  then show ?thesis by (simp add: distinct_conv_nth)
qed

section \<open>Master records and the left merge\<close>

lemma set_drop_duplicates_from: "set (drop_duplicates_from seen xs) = set xs - set seen"
  by (induction xs arbitrary: seen) auto

lemma distinct_drop_duplicates_from: "distinct (drop_duplicates_from seen xs)"
  by (induction xs arbitrary: seen) (auto simp: set_drop_duplicates_from)

lemma set_drop_duplicates: "set (drop_duplicates xs) = set xs"
  by (simp add: drop_duplicates_def set_drop_duplicates_from)

lemma distinct_drop_duplicates: "distinct (drop_duplicates xs)"
  by (simp add: drop_duplicates_def distinct_drop_duplicates_from)

lemma master_keys: "map m_customer_id (derive_master ts) = drop_duplicates (dropna (map customer_id ts))"
  by (simp add: derive_master_def make_master_def comp_def)

lemma set_master_keys: "set (map m_customer_id (derive_master ts)) = set (map customer_id ts) - {None}"
  by (auto simp: master_keys set_drop_duplicates dropna_def)

lemma distinct_master_keys: "distinct (map m_customer_id (derive_master ts))"
  by (simp add: master_keys distinct_drop_duplicates)

lemma derive_master_no_null: "None \<notin> set (map m_customer_id (derive_master ts))"
  using set_master_keys[of ts] by blast

lemma filter_key_distinct:
  "distinct (map f xs) \<Longrightarrow> filter (\<lambda>x. f x = k) xs = [] \<or> (\<exists>x. filter (\<lambda>x. f x = k) xs = [x])"
proof (induction xs)
  case Nil
  then show ?case by simp
next
  case (Cons a xs)
  show ?case
  proof (cases "f a = k")
    case True
    from Cons.prems have "f a \<notin> f ` set xs" by simp
    with True have "\<forall>x\<in>set xs. f x \<noteq> k" by blast
    then have "filter (\<lambda>x. f x = k) xs = []" by (simp add: filter_empty_conv)
    with True show ?thesis by simp
  next
    case False
    with Cons show ?thesis by simp
  qed
qed

lemma merge_row_unmatched:
  "\<not> isin (customer_id t) (map m_customer_id ms) \<Longrightarrow> merge_row t ms = [(None, ''left_only'')]"
proof -
  assume "\<not> isin (customer_id t) (map m_customer_id ms)"
  then have "\<forall>m\<in>set ms. m_customer_id m \<noteq> customer_id t" by (force simp: isin_def)
  then have "filter (\<lambda>m. m_customer_id m = customer_id t) ms = []" by (simp add: filter_empty_conv)
  then show ?thesis by (simp add: merge_row_def)
qed

lemma merge_row_matched:
  assumes "distinct (map m_customer_id ms)" and "isin (customer_id t) (map m_customer_id ms)"
  shows "\<exists>m. m \<in> set ms \<and> m_customer_id m = customer_id t \<and> merge_row t ms = [(Some m, ''both'')]"
proof -
  from assms(2) have "filter (\<lambda>m. m_customer_id m = customer_id t) ms \<noteq> []"
    by (force simp: isin_def filter_empty_conv)
  with filter_key_distinct[OF assms(1), of "customer_id t"]
  obtain m where m: "filter (\<lambda>m. m_customer_id m = customer_id t) ms = [m]" by blast
  then have "m \<in> set (filter (\<lambda>m. m_customer_id m = customer_id t) ms)" by simp
  then have "m \<in> set ms" "m_customer_id m = customer_id t" by simp_all
  moreover have "merge_row t ms = [(Some m, ''both'')]" using m by (simp add: merge_row_def)
  ultimately show ?thesis by blast
qed

lemma run_from_fields:
  "transactions_csv (run_from now ts ms) = ts"
  "master_records_csv (run_from now ts ms) = ms"
  "data_quality_report_csv (run_from now ts ms) = dq_report now ms ts"
  "reconciliation_results_csv (run_from now ts ms) = reconcile ts ms"
  "exceptions_report_csv (run_from now ts ms) = r003 ts ms @ r004 ts @ r005 (reconcile ts ms)"
  by (simp_all add: run_from_def Let_def)

lemma run_steps_fields:
  "transactions_csv (run_steps now ts) = ts"
  "master_records_csv (run_steps now ts) = derive_master ts"
  "data_quality_report_csv (run_steps now ts) = dq_report now (derive_master ts) ts"
  "reconciliation_results_csv (run_steps now ts) = reconcile ts (derive_master ts)"
  "exceptions_report_csv (run_steps now ts) =
     r003 ts (derive_master ts) @ r004 ts @ r005 (reconcile ts (derive_master ts))"
  by (simp_all add: run_steps_def run_from_fields)

text \<open>
  A run that completes is \<open>run_from\<close> on the normalized transactions, which stand in
  input order, and on the master derived from them.
\<close>

lemma pipeline_Inr:
  assumes "pipeline rt now rows = Inr out"
  obtains ts where "normalize rt rows = Inr ts" and "out = run_steps now ts"
  using assms by (auto simp: pipeline_def split: sum.splits)

lemma pipeline_run_from:
  "pipeline rt now rows = Inr out \<Longrightarrow>
     \<exists>ts. normalize rt rows = Inr ts \<and> out = run_from now ts (derive_master ts)"
  by (auto simp: pipeline_def run_steps_def split: sum.splits)

lemma truncate_make_reconciled: "transaction.truncate (make_reconciled t mi) = t"
  by (simp add: make_reconciled_def transaction.truncate_def)

lemma make_reconciled_fields:
  "txn_id (make_reconciled t mi) = txn_id t"
  "customer_id (make_reconciled t mi) = customer_id t"
  "match_status (make_reconciled t mi) = status_of (snd mi)"
  by (simp_all add: make_reconciled_def)

lemma merge_row_one:
  assumes "distinct (map m_customer_id ms)"
  shows "\<exists>mo ind. merge_row t ms = [(mo, ind)] \<and> status_of ind = Some (if isin (customer_id t) (map m_customer_id ms) then ''MATCHED'' else ''UNMATCHED'')"
proof (cases "isin (customer_id t) (map m_customer_id ms)")
  case True
  from merge_row_matched[OF assms True] obtain m where "merge_row t ms = [(Some m, ''both'')]"
    by blast
  moreover have "status_of ''both'' = Some ''MATCHED''" by (simp add: status_of_def)
  ultimately show ?thesis using True by simp
next
  case False
  then have "merge_row t ms = [(None, ''left_only'')]" by (rule merge_row_unmatched)
  moreover have "status_of ''left_only'' = Some ''UNMATCHED''" by (simp add: status_of_def)
  ultimately show ?thesis using False by simp
qed

lemma reconcile_Cons: "reconcile (t # ts) ms = map (make_reconciled t) (merge_row t ms) @ reconcile ts ms"
  by (simp add: reconcile_def)

lemma reconcile_truncate:
  "distinct (map m_customer_id ms) \<Longrightarrow> map transaction.truncate (reconcile ts ms) = ts"
proof (induction ts)
  case Nil
  then show ?case by (simp add: reconcile_def)
next
  case (Cons t ts)
  from merge_row_one[OF Cons.prems, of t] obtain mo ind where "merge_row t ms = [(mo, ind)]"
    by blast
  with Cons show ?case by (simp add: reconcile_Cons truncate_make_reconciled)
qed

text \<open>For any master, whatever its keys: the rows of one transaction all have one status.\<close>

lemma merge_row_status:
  assumes "mi \<in> set (merge_row t ms)"
  shows "status_of (snd mi) =
     Some (if isin (customer_id t) (map m_customer_id ms) then ''MATCHED'' else ''UNMATCHED'')"
proof (cases "isin (customer_id t) (map m_customer_id ms)")
  case False
  then have "merge_row t ms = [(None, ''left_only'')]" by (rule merge_row_unmatched)
  with assms have "snd mi = ''left_only''" by simp
  with False show ?thesis by (simp add: status_of_def)
next
  case True
  then have "filter (\<lambda>m. m_customer_id m = customer_id t) ms \<noteq> []"
    by (force simp: isin_def filter_empty_conv)
  then have "merge_row t ms
      = map (\<lambda>m. (Some m, ''both'')) (filter (\<lambda>m. m_customer_id m = customer_id t) ms)"
    by (simp add: merge_row_def split: list.splits)
  with assms have "snd mi = ''both''" by auto
  with True show ?thesis by (simp add: status_of_def)
qed

lemma reconcile_status:
  assumes "r \<in> set (reconcile ts ms)"
  shows "match_status r =
     Some (if isin (customer_id r) (map m_customer_id ms) then ''MATCHED'' else ''UNMATCHED'')"
proof -
  from assms obtain t mi where mi: "mi \<in> set (merge_row t ms)" and r: "r = make_reconciled t mi"
    by (auto simp: reconcile_def)
  from merge_row_status[OF mi] r show ?thesis by (simp add: make_reconciled_fields)
qed

lemma reconcile_row_truncate: "r \<in> set (reconcile ts ms) \<Longrightarrow> transaction.truncate r \<in> set ts"
  by (auto simp: reconcile_def truncate_make_reconciled)

lemma filter_all: "(\<And>x. x \<in> set xs \<Longrightarrow> P x) \<Longrightarrow> filter P xs = xs"
  by (induction xs) auto

lemma filter_none: "(\<And>x. x \<in> set xs \<Longrightarrow> \<not> P x) \<Longrightarrow> filter P xs = []"
  by (induction xs) auto

lemma unmatched_rows_of:
  "map transaction.truncate
     (filter (\<lambda>r. match_status r = Some ''UNMATCHED'') (map (make_reconciled t) (merge_row t ms)))
   = (if isin (customer_id t) (map m_customer_id ms) then [] else [t])"
proof (cases "isin (customer_id t) (map m_customer_id ms)")
  case False
  then have "merge_row t ms = [(None, ''left_only'')]" by (rule merge_row_unmatched)
  with False show ?thesis
    by (simp add: make_reconciled_fields status_of_def truncate_make_reconciled)
next
  case True
  have "filter (\<lambda>r. match_status r = Some ''UNMATCHED'') (map (make_reconciled t) (merge_row t ms)) = []"
  proof (rule filter_none)
    fix r assume "r \<in> set (map (make_reconciled t) (merge_row t ms))"
    then obtain mi where "mi \<in> set (merge_row t ms)" and "r = make_reconciled t mi" by auto
    with merge_row_status[of mi t ms] True
    show "\<not> match_status r = Some ''UNMATCHED''" by (simp add: make_reconciled_fields)
  qed
  with True show ?thesis by simp
qed

lemma reconcile_unmatched:
  "map transaction.truncate (filter (\<lambda>r. match_status r = Some ''UNMATCHED'') (reconcile ts ms))
   = filter (\<lambda>t. \<not> isin (customer_id t) (map m_customer_id ms)) ts"
proof (induction ts)
  case Nil
  then show ?case by (simp add: reconcile_def)
next
  case (Cons t ts)
  then show ?case by (simp add: reconcile_Cons unmatched_rows_of)
qed

section \<open>The exception list\<close>

lemma rule_id_r003: "e \<in> set (r003 ts ms) \<Longrightarrow> rule_id e = ''R003''"
  by (auto simp: r003_def)

lemma rule_id_r004: "e \<in> set (r004 ts) \<Longrightarrow> rule_id e = ''R004''"
  by (auto simp: r004_def)

lemma rule_id_r005: "e \<in> set (r005 rs) \<Longrightarrow> rule_id e = ''R005''"
  by (auto simp: r005_def)

lemma filter_rules:
  "filter (\<lambda>e. rule_id e = ''R003'') (r003 ts ms @ r004 ts @ r005 rs) = r003 ts ms"
  "filter (\<lambda>e. rule_id e = ''R004'') (r003 ts ms @ r004 ts @ r005 rs) = r004 ts"
  "filter (\<lambda>e. rule_id e = ''R005'') (r003 ts ms @ r004 ts @ r005 rs) = r005 rs"
proof -
  have a: "filter (\<lambda>e. rule_id e = ''R003'') (r003 ts ms) = r003 ts ms"
    by (rule filter_all) (rule rule_id_r003)
  have b: "filter (\<lambda>e. rule_id e = ''R003'') (r004 ts) = []"
    by (rule filter_none) (auto dest: rule_id_r004)
  have c: "filter (\<lambda>e. rule_id e = ''R003'') (r005 rs) = []"
    by (rule filter_none) (auto dest: rule_id_r005)
  show "filter (\<lambda>e. rule_id e = ''R003'') (r003 ts ms @ r004 ts @ r005 rs) = r003 ts ms"
    by (simp only: filter_append a b c append_Nil2)
  have a: "filter (\<lambda>e. rule_id e = ''R004'') (r003 ts ms) = []"
    by (rule filter_none) (auto dest: rule_id_r003)
  have b: "filter (\<lambda>e. rule_id e = ''R004'') (r004 ts) = r004 ts"
    by (rule filter_all) (rule rule_id_r004)
  have c: "filter (\<lambda>e. rule_id e = ''R004'') (r005 rs) = []"
    by (rule filter_none) (auto dest: rule_id_r005)
  show "filter (\<lambda>e. rule_id e = ''R004'') (r003 ts ms @ r004 ts @ r005 rs) = r004 ts"
    by (simp only: filter_append a b c append_Nil2 append_Nil)
  have a: "filter (\<lambda>e. rule_id e = ''R005'') (r003 ts ms) = []"
    by (rule filter_none) (auto dest: rule_id_r003)
  have b: "filter (\<lambda>e. rule_id e = ''R005'') (r004 ts) = []"
    by (rule filter_none) (auto dest: rule_id_r004)
  have c: "filter (\<lambda>e. rule_id e = ''R005'') (r005 rs) = r005 rs"
    by (rule filter_all) (rule rule_id_r005)
  show "filter (\<lambda>e. rule_id e = ''R005'') (r003 ts ms @ r004 ts @ r005 rs) = r005 rs"
    by (simp only: filter_append a b c append_Nil2 append_Nil)
qed

lemma txn_ids_r003: "map exc_txn_id (r003 ts ms) = map txn_id (unknown_customers ts ms)"
  by (simp add: r003_def comp_def)

lemma txn_ids_r004: "map exc_txn_id (r004 ts) = map txn_id (negative_txns ts)"
  by (simp add: r004_def comp_def)

lemma txn_ids_r005:
  "map exc_txn_id (r005 rs) = map txn_id (filter (\<lambda>r. match_status r = Some ''UNMATCHED'') rs)"
  by (simp add: r005_def comp_def)

lemma set_filter_Collect: "set (filter P xs) = {x \<in> set xs. P x}"
  by auto

lemma unknown_customers_derived: "unknown_customers ts (derive_master ts) = []"
proof -
  have "isin (customer_id t) (map m_customer_id (derive_master ts))"
    if "t \<in> set ts" "customer_id t \<noteq> None" for t
    using that set_master_keys[of ts] by (auto simp: isin_def)
  then have "\<forall>t\<in>set ts. \<not> (customer_id t \<noteq> None
      \<and> \<not> isin (customer_id t) (map m_customer_id (derive_master ts)))"
    by blast
  then show ?thesis by (simp only: unknown_customers_def filter_empty_conv)
qed

lemma txn_id_truncate: "txn_id (transaction.truncate r) = txn_id r"
  by (simp add: transaction.truncate_def)

lemma customer_id_truncate: "customer_id (transaction.truncate r) = customer_id r"
  by (simp add: transaction.truncate_def)

lemma reconcile_txn_ids:
  assumes "distinct (map m_customer_id ms)"
  shows "map txn_id (reconcile ts ms) = map txn_id ts"
proof -
  have "map txn_id (map transaction.truncate (reconcile ts ms)) = map txn_id ts"
    using assms by (simp only: reconcile_truncate)
  then show ?thesis by (simp add: comp_def txn_id_truncate)
qed

lemma r005_unmatched_ids:
  "map exc_txn_id (r005 (reconcile ts ms))
   = map txn_id (filter (\<lambda>t. \<not> isin (customer_id t) (map m_customer_id ms)) ts)"
proof -
  let ?un = "filter (\<lambda>r. match_status r = Some ''UNMATCHED'') (reconcile ts ms)"
  have "map exc_txn_id (r005 (reconcile ts ms)) = map txn_id ?un" by (rule txn_ids_r005)
  also have "\<dots> = map txn_id (map transaction.truncate ?un)"
    by (simp add: comp_def txn_id_truncate)
  also have "\<dots> = map txn_id (filter (\<lambda>t. \<not> isin (customer_id t) (map m_customer_id ms)) ts)"
    by (simp only: reconcile_unmatched)
  finally show ?thesis .
qed

section \<open>The scenario, evaluated\<close>

lemma scenario_run: "pipeline pandas_3 0 [line_a, line_b] = Inr scenario_out"
  by code_simp

lemma scenario_run_pandas_2: "pipeline pandas_2 0 [line_a, line_b] = Inr scenario_out"
  by code_simp

lemma scenario_transactions: "transactions_csv scenario_out = [txn_a, txn_b]"
  by (simp add: scenario_out_def run_steps_fields)

lemma scenario_master: "master_records_csv scenario_out = [master_7]"
  by code_simp

lemma scenario_reconciled: "reconciliation_results_csv scenario_out = [recon_a, recon_b]"
  by code_simp

lemma scenario_exceptions:
  "map (\<lambda>e. (rule_id e, exc_txn_id e, exc_customer_id e, severity e))
       (exceptions_report_csv scenario_out)
     = [(''R004'', Some ''A1-1'', None, ''high''), (''R005'', Some ''A1-1'', None, ''high'')]"
  by code_simp

lemma scenario_dq:
  "map (\<lambda>d. (table_name d, column d, null_count d)) (data_quality_report_csv scenario_out)
     = [(''master_records'', ''customer_id'', 0), (''master_records'', ''customer_name'', 0),
        (''master_records'', ''account_status'', 0),
        (''transactions'', ''txn_id'', 0), (''transactions'', ''customer_id'', 1),
        (''transactions'', ''amount'', 0), (''transactions'', ''txn_date'', 0),
        (''transactions'', ''invoice'', 0), (''transactions'', ''stockcode'', 0),
        (''transactions'', ''description'', 2), (''transactions'', ''country'', 0)]"
  by code_simp

text \<open>Two lines without invoice, where \<^verbatim>\<open>astype(str)\<close> leaves a missing value missing.\<close>

lemma missing_invoice_run:
  "map_sum id (\<lambda>out. (length (dup_txn (transactions_csv out)),
       map (\<lambda>d. (table_name d, column d, null_count d)) (data_quality_report_csv out)))
     (pipeline pandas_3 (0::nat) [line_n, line_n])
   = Inr (2, [(''master_records'', ''customer_id'', 0), (''master_records'', ''customer_name'', 0),
        (''master_records'', ''account_status'', 0),
        (''transactions'', ''txn_id'', 2), (''transactions'', ''customer_id'', 2),
        (''transactions'', ''amount'', 0), (''transactions'', ''txn_date'', 0),
        (''transactions'', ''invoice'', 2), (''transactions'', ''stockcode'', 0),
        (''transactions'', ''description'', 2), (''transactions'', ''country'', 0)])"
  by code_simp

text \<open>The same transactions against a master from another source.\<close>

lemma foreign_exceptions:
  "map (\<lambda>e. (rule_id e, exc_txn_id e)) (exceptions_report_csv (run_from (0::nat) foreign_txns foreign_master))
     = [(''R003'', Some ''B7-0''), (''R003'', Some ''B7-3''),
        (''R004'', Some ''B7-0''), (''R004'', Some ''B7-2''),
        (''R005'', Some ''B7-0''), (''R005'', Some ''B7-1''), (''R005'', Some ''B7-3'')]"
  by code_simp

lemma foreign_statuses:
  "map (\<lambda>r. (txn_id r, customer_id r, match_status r)) (reconcile foreign_txns foreign_master)
     = [(Some ''B7-0'', Some ''7'', Some ''UNMATCHED''), (Some ''B7-1'', None, Some ''UNMATCHED''),
        (Some ''B7-2'', Some ''9'', Some ''MATCHED''), (Some ''B7-3'', Some ''5'', Some ''UNMATCHED'')]"
  by code_simp

text \<open>What \<^verbatim>\<open>int\<close> takes and what it rejects.\<close>

lemma py_int_examples:
  "py_int 4300 (StrCell ''C12'') = Inl ValueError"
  "py_int 4300 (StrCell ''12.5'') = Inl ValueError"
  "py_int 4300 (StrCell [CHR 0x1F, CHR ''7'']) = Inl ValueError"
  "py_int 4300 (StrCell [CHR ''7'', CHR 0x1C]) = Inl ValueError"
  "py_int 4300 (StrCell [CHR 0xA0, CHR ''7'', CHR 0xA0]) = Inr 7"
  "py_int 4300 (StrCell [CHR 0x85, CHR ''7'']) = Inr 7"
  "py_int 4300 InfCell = Inl OverflowError"
  "py_int 4300 (StrCell '' 1_000 '') = Inr 1000"
  "py_int 4300 (FloatCell 25 (- 1)) = Inr 12"
  "normalize_customer pandas_3 (FloatCell 7 0) = Inr (Some ''7'')"
  by code_simp+

lemma digit_groups_ones: "digit_groups (replicate (Suc n) (CHR ''1''))"
proof (induction n)
  case 0
  show ?case by (simp add: is_digit_def)
next
  case (Suc n)
  then show ?case by (simp add: is_digit_def)
qed

lemma py_int_digit_limit:
  assumes "0 < lim" and "lim < Suc n" and "640 < Suc n"
  shows "py_int lim (StrCell (replicate (Suc n) (CHR ''1''))) = Inl ValueError"
proof -
  let ?s = "replicate (Suc n) (CHR ''1'')"
  have sp: "\<not> py_isspace (CHR ''1'')" by (simp add: py_isspace_def)
  have dw: "dropWhile py_isspace (replicate k (CHR ''1'')) = replicate k (CHR ''1'')" for k
    using sp by (cases k) simp_all
  have "strip ?s = ?s" by (simp only: strip_def dw rev_replicate)
  then have st: "strip ?s = CHR ''1'' # replicate n (CHR ''1'')" by simp
  have f: "filter is_digit ?s = ?s" by (simp add: is_digit_def)
  have "int_of_digits lim ?s = None"
    using assms digit_groups_ones[of n]
    by (simp only: int_of_digits_def f Let_def over_limit_def length_replicate if_True simp_thms)
  then have "int_of_digits lim (CHR ''1'' # replicate n (CHR ''1'')) = None" by simp
  with st have "int_of_str lim ?s = None" by (simp add: int_of_str_def)
  then show ?thesis by simp
qed

section \<open>Reconciliation\<close>

text \<open>
  Claim C1 (join correctness). For any transactions and any master table without a null
  key (the derived master is one, by \<open>derive_master_no_null\<close>; a master from another
  source may hold other keys), every row the Reconciler produces has match status
  \<^verbatim>\<open>MATCHED\<close> exactly when its customer identifier is not null and occurs among the
  customer identifiers of the master table; every other row has match status
  \<^verbatim>\<open>UNMATCHED\<close>: a row with a null customer identifier, and a row whose customer
  identifier is absent from the master table.
\<close>

theorem join_correctness:
  assumes "r \<in> set (reconciliation_results_csv (run_from now ts ms))"
    and "None \<notin> set (map m_customer_id ms)"
  shows "(match_status r = Some ''MATCHED'' \<longleftrightarrow>
            customer_id r \<noteq> None \<and> customer_id r \<in> set (map m_customer_id ms))
       \<and> (match_status r = Some ''MATCHED'' \<or> match_status r = Some ''UNMATCHED'')"
proof -
  from assms(1) have "r \<in> set (reconcile ts ms)" by (simp add: run_from_fields)
  then have st: "match_status r =
      Some (if isin (customer_id r) (map m_customer_id ms) then ''MATCHED'' else ''UNMATCHED'')"
    by (rule reconcile_status)
  show ?thesis
  proof (cases "isin (customer_id r) (map m_customer_id ms)")
    case True
    then have "customer_id r \<in> set (map m_customer_id ms)" by (simp add: isin_def)
    moreover from this assms(2) have "customer_id r \<noteq> None" by metis
    ultimately show ?thesis using True st by simp
  next
    case False
    then have "customer_id r \<notin> set (map m_customer_id ms)" by (simp add: isin_def)
    then show ?thesis using False st by simp
  qed
qed

theorem join_correctness_witness:
  "make_reconciled (txn_of ''B7-0'' (Some ''7'') (- 4)) (None, ''left_only'')
     \<in> set (reconciliation_results_csv (run_from (0::nat) foreign_txns foreign_master))
   \<and> None \<notin> set (map m_customer_id foreign_master)
   \<and> customer_id (make_reconciled (txn_of ''B7-0'' (Some ''7'') (- 4)) (None, ''left_only'')) = Some ''7''
   \<and> Some ''7'' \<notin> set (map m_customer_id foreign_master)
   \<and> match_status (make_reconciled (txn_of ''B7-0'' (Some ''7'') (- 4)) (None, ''left_only''))
       = Some ''UNMATCHED''
   \<and> recon_a \<in> set (reconciliation_results_csv (run_from (0::nat) [txn_a, txn_b] [master_7]))
   \<and> None \<notin> set (map m_customer_id [master_7])
   \<and> match_status recon_a = Some ''MATCHED''
   \<and> recon_b \<in> set (reconciliation_results_csv (run_from (0::nat) [txn_a, txn_b] [master_7]))
   \<and> customer_id recon_b = None
   \<and> match_status recon_b \<noteq> Some ''MATCHED''"
proof -
  let ?r = "make_reconciled (txn_of ''B7-0'' (Some ''7'') (- 4)) (None, ''left_only'')"
  have f: "?r \<in> set (reconciliation_results_csv (run_from (0::nat) foreign_txns foreign_master))"
    by code_simp
  have fn: "None \<notin> set (map m_customer_id foreign_master)"
    by (simp add: foreign_master_def make_master_def)
  have fc: "customer_id ?r = Some ''7''" by (simp add: make_reconciled_fields txn_of_def)
  have fa: "Some ''7'' \<notin> set (map m_customer_id foreign_master)"
    by (simp add: foreign_master_def make_master_def)
  from join_correctness[OF f fn] fc fa
  have fu: "match_status ?r = Some ''UNMATCHED''" by (simp only: set_map) blast
  have a: "recon_a \<in> set (reconciliation_results_csv (run_from (0::nat) [txn_a, txn_b] [master_7]))"
    by code_simp
  have b: "recon_b \<in> set (reconciliation_results_csv (run_from (0::nat) [txn_a, txn_b] [master_7]))"
    by code_simp
  have n7: "None \<notin> set (map m_customer_id [master_7])" by (simp add: master_7_def)
  have na: "customer_id recon_a = Some ''7''" by (simp add: recon_a_def)
  have nb: "customer_id recon_b = None" by (simp add: recon_b_def)
  from join_correctness[OF a n7] na
  have ma: "match_status recon_a = Some ''MATCHED''" by (simp add: master_7_def)
  from join_correctness[OF b n7] nb
  have mb: "match_status recon_b \<noteq> Some ''MATCHED''" by simp
  from f fn fc fa fu a n7 ma b nb mb show ?thesis by blast
qed

text \<open>
  Claim C2 (coverage). In a run that completes, the reconciliation result, cut back to
  the columns of the transaction table, is the transaction table itself, row by row and
  in the same order: one reconciled row for each transaction, none dropped and none
  repeated, and as many rows as the input has. The keys of the master table are pairwise
  distinct, which is why no transaction meets two master rows.
\<close>

theorem coverage:
  assumes "pipeline rt now rows = Inr out"
  shows "map transaction.truncate (reconciliation_results_csv out) = transactions_csv out
       \<and> length (reconciliation_results_csv out) = length rows
       \<and> length (transactions_csv out) = length rows
       \<and> distinct (map m_customer_id (master_records_csv out))"
proof -
  from assms obtain ts where ts: "normalize rt rows = Inr ts" and out: "out = run_steps now ts"
    by (rule pipeline_Inr)
  have d: "distinct (map m_customer_id (derive_master ts))" by (rule distinct_master_keys)
  then have eq: "map transaction.truncate (reconcile ts (derive_master ts)) = ts"
    by (rule reconcile_truncate)
  then have "length (reconcile ts (derive_master ts)) = length ts"
    by (metis length_map)
  with eq d normalize_length[OF ts] show ?thesis by (simp add: out run_steps_fields)
qed

theorem coverage_witness:
  "pipeline pandas_3 (0::nat) [line_a, line_b, line_a]
     = Inr (run_steps 0 [txn_a, txn_b, txn_a\<lparr>txn_id := Some ''A1-2''\<rparr>])
   \<and> map transaction.truncate
        (reconciliation_results_csv
           (run_steps (0::nat) [txn_a, txn_b, txn_a\<lparr>txn_id := Some ''A1-2''\<rparr>]))
      = [txn_a, txn_b, txn_a\<lparr>txn_id := Some ''A1-2''\<rparr>]
   \<and> length (reconciliation_results_csv
        (run_steps (0::nat) [txn_a, txn_b, txn_a\<lparr>txn_id := Some ''A1-2''\<rparr>]))
      = 3"
proof -
  have h: "pipeline pandas_3 (0::nat) [line_a, line_b, line_a]
      = Inr (run_steps 0 [txn_a, txn_b, txn_a\<lparr>txn_id := Some ''A1-2''\<rparr>])"
    by code_simp
  from coverage[OF h] h show ?thesis by (simp add: run_steps_fields)
qed

section \<open>Rules\<close>

text \<open>
  Claim C3 (R004 completeness). In a run that completes, the transaction identifiers that
  carry an R004 exception are exactly the identifiers of the transactions whose amount is
  below zero, and the R004 exceptions list those transactions one by one, in order: each
  has one, whatever its match status, and no other transaction has one. A transaction
  whose identifier is not null (every transaction that has an invoice) is the only one
  with that identifier, so it has an R004 exception exactly when its amount is below
  zero.
\<close>

theorem r004_completeness:
  assumes "pipeline rt now rows = Inr out" and "t \<in> set (transactions_csv out)"
  shows "exc_txn_id ` {e \<in> set (exceptions_report_csv out). rule_id e = ''R004''}
           = txn_id ` {t \<in> set (transactions_csv out). lt_zero (amount t)}
       \<and> map exc_txn_id (filter (\<lambda>e. rule_id e = ''R004'') (exceptions_report_csv out))
           = map txn_id (filter (\<lambda>t. lt_zero (amount t)) (transactions_csv out))
       \<and> ((txn_id t \<noteq> None
             \<and> (\<exists>e \<in> set (exceptions_report_csv out). rule_id e = ''R004'' \<and> exc_txn_id e = txn_id t))
            \<longleftrightarrow> (txn_id t \<noteq> None \<and> lt_zero (amount t)))"
proof -
  from assms(1) obtain ts where ts: "normalize rt rows = Inr ts" and out: "out = run_steps now ts"
    by (rule pipeline_Inr)
  let ?exs = "exceptions_report_csv out"
  have f: "filter (\<lambda>e. rule_id e = ''R004'') ?exs = r004 ts"
    by (simp only: out run_steps_fields filter_rules)
  have lists: "map exc_txn_id (filter (\<lambda>e. rule_id e = ''R004'') ?exs)
      = map txn_id (filter (\<lambda>t. lt_zero (amount t)) ts)"
    by (simp only: f txn_ids_r004 negative_txns_def)
  then have "set (map exc_txn_id (filter (\<lambda>e. rule_id e = ''R004'') ?exs))
      = set (map txn_id (filter (\<lambda>t. lt_zero (amount t)) ts))"
    by simp
  then have sets: "exc_txn_id ` {e \<in> set ?exs. rule_id e = ''R004''}
      = txn_id ` {t \<in> set ts. lt_zero (amount t)}"
    by (simp only: set_map set_filter_Collect)
  from assms(2) have t: "t \<in> set ts" by (simp add: out run_steps_fields)
  have ex: "(\<exists>e \<in> set ?exs. rule_id e = ''R004'' \<and> exc_txn_id e = txn_id t)
      \<longleftrightarrow> txn_id t \<in> txn_id ` {t \<in> set ts. lt_zero (amount t)}"
    unfolding sets[symmetric] by force
  have "(txn_id t \<noteq> None \<and> txn_id t \<in> txn_id ` {t \<in> set ts. lt_zero (amount t)})
      \<longleftrightarrow> (txn_id t \<noteq> None \<and> lt_zero (amount t))"
  proof
    assume l: "txn_id t \<noteq> None \<and> txn_id t \<in> txn_id ` {t \<in> set ts. lt_zero (amount t)}"
    then obtain t' where t': "t' \<in> set ts" "lt_zero (amount t')" "txn_id t = txn_id t'"
      by blast
    from l t'(1,3) have "t = t'" by (intro normalize_txn_id_unique[OF ts t]) simp_all
    with l t'(2) show "txn_id t \<noteq> None \<and> lt_zero (amount t)" by simp
  next
    assume "txn_id t \<noteq> None \<and> lt_zero (amount t)"
    with t show "txn_id t \<noteq> None \<and> txn_id t \<in> txn_id ` {t \<in> set ts. lt_zero (amount t)}"
      by blast
  qed
  with ex have "(txn_id t \<noteq> None
        \<and> (\<exists>e \<in> set ?exs. rule_id e = ''R004'' \<and> exc_txn_id e = txn_id t))
      \<longleftrightarrow> (txn_id t \<noteq> None \<and> lt_zero (amount t))"
    by simp
  with sets lists show ?thesis by (simp add: out run_steps_fields)
qed

theorem r004_completeness_witness:
  "pipeline pandas_3 0 [line_a, line_b] = Inr scenario_out
   \<and> txn_b \<in> set (transactions_csv scenario_out)
   \<and> txn_id txn_b = Some ''A1-1''
   \<and> lt_zero (amount txn_b)
   \<and> (\<exists>e \<in> set (exceptions_report_csv scenario_out).
         rule_id e = ''R004'' \<and> exc_txn_id e = Some ''A1-1'')
   \<and> txn_a \<in> set (transactions_csv scenario_out)
   \<and> txn_id txn_a = Some ''A1-0''
   \<and> \<not> lt_zero (amount txn_a)
   \<and> \<not> (\<exists>e \<in> set (exceptions_report_csv scenario_out).
         rule_id e = ''R004'' \<and> exc_txn_id e = Some ''A1-0'')"
proof -
  have mb: "txn_b \<in> set (transactions_csv scenario_out)" by (simp add: scenario_transactions)
  have ma: "txn_a \<in> set (transactions_csv scenario_out)" by (simp add: scenario_transactions)
  have nb: "lt_zero (amount txn_b)" by (simp add: txn_b_def lt_zero_def)
  have na: "\<not> lt_zero (amount txn_a)" by (simp add: txn_a_def lt_zero_def)
  have ib: "txn_id txn_b = Some ''A1-1''" by (simp add: txn_b_def)
  have ia: "txn_id txn_a = Some ''A1-0''" by (simp add: txn_a_def)
  from r004_completeness[OF scenario_run mb] nb ib
  have eb: "\<exists>e \<in> set (exceptions_report_csv scenario_out).
      rule_id e = ''R004'' \<and> exc_txn_id e = Some ''A1-1''"
    by simp
  from r004_completeness[OF scenario_run ma] na ia
  have ea: "\<not> (\<exists>e \<in> set (exceptions_report_csv scenario_out).
      rule_id e = ''R004'' \<and> exc_txn_id e = Some ''A1-0'')"
    by simp
  from scenario_run ma mb na nb ia ib ea eb show ?thesis by blast
qed

text \<open>
  Claim C4 (R005 completeness). In a run that completes, the transaction identifiers that
  carry an R005 exception are exactly the identifiers of the reconciled rows whose match
  status is \<^verbatim>\<open>UNMATCHED\<close>, and the R005 exceptions list those rows one by one, in order:
  each unmatched row has one and no matched row has one. A reconciled row whose identifier
  is not null (every row that has an invoice) has an R005 exception exactly when it is
  unmatched.
\<close>

theorem r005_completeness:
  assumes "pipeline rt now rows = Inr out" and "r \<in> set (reconciliation_results_csv out)"
  shows "exc_txn_id ` {e \<in> set (exceptions_report_csv out). rule_id e = ''R005''}
           = txn_id ` {r \<in> set (reconciliation_results_csv out). match_status r = Some ''UNMATCHED''}
       \<and> map exc_txn_id (filter (\<lambda>e. rule_id e = ''R005'') (exceptions_report_csv out))
           = map txn_id (filter (\<lambda>r. match_status r = Some ''UNMATCHED'')
               (reconciliation_results_csv out))
       \<and> ((txn_id r \<noteq> None
             \<and> (\<exists>e \<in> set (exceptions_report_csv out). rule_id e = ''R005'' \<and> exc_txn_id e = txn_id r))
            \<longleftrightarrow> (txn_id r \<noteq> None \<and> match_status r = Some ''UNMATCHED''))"
proof -
  from assms(1) obtain ts where ts: "normalize rt rows = Inr ts" and out: "out = run_steps now ts"
    by (rule pipeline_Inr)
  let ?exs = "exceptions_report_csv out"
  let ?ms = "derive_master ts"
  let ?rs = "reconcile ts ?ms"
  have rs: "reconciliation_results_csv out = ?rs" by (simp add: out run_steps_fields)
  have f: "filter (\<lambda>e. rule_id e = ''R005'') ?exs = r005 ?rs"
    by (simp only: out run_steps_fields filter_rules)
  have lists: "map exc_txn_id (filter (\<lambda>e. rule_id e = ''R005'') ?exs)
      = map txn_id (filter (\<lambda>r. match_status r = Some ''UNMATCHED'') ?rs)"
    by (simp only: f txn_ids_r005)
  then have "set (map exc_txn_id (filter (\<lambda>e. rule_id e = ''R005'') ?exs))
      = set (map txn_id (filter (\<lambda>r. match_status r = Some ''UNMATCHED'') ?rs))"
    by simp
  then have sets: "exc_txn_id ` {e \<in> set ?exs. rule_id e = ''R005''}
      = txn_id ` {r \<in> set ?rs. match_status r = Some ''UNMATCHED''}"
    by (simp only: set_map set_filter_Collect)
  from assms(2) have r: "r \<in> set ?rs" by (simp only: rs)
  have same: "match_status r' = match_status r"
    if "r' \<in> set ?rs" "txn_id r' = txn_id r" "txn_id r \<noteq> None" for r'
  proof -
    from that(1) have t': "transaction.truncate r' \<in> set ts" by (rule reconcile_row_truncate)
    from r have t: "transaction.truncate r \<in> set ts" by (rule reconcile_row_truncate)
    from that(2,3) have "transaction.truncate r' = transaction.truncate r"
      by (intro normalize_txn_id_unique[OF ts t' t]) (simp_all add: txn_id_truncate)
    then have "customer_id r' = customer_id r"
      by (metis customer_id_truncate)
    with reconcile_status[OF that(1)] reconcile_status[OF r] show ?thesis by simp
  qed
  have ex: "(\<exists>e \<in> set ?exs. rule_id e = ''R005'' \<and> exc_txn_id e = txn_id r)
      \<longleftrightarrow> txn_id r \<in> txn_id ` {r \<in> set ?rs. match_status r = Some ''UNMATCHED''}"
    unfolding sets[symmetric] by force
  have "(txn_id r \<noteq> None \<and> txn_id r \<in> txn_id ` {r \<in> set ?rs. match_status r = Some ''UNMATCHED''})
      \<longleftrightarrow> (txn_id r \<noteq> None \<and> match_status r = Some ''UNMATCHED'')"
    using r same by force
  with ex have "(txn_id r \<noteq> None
        \<and> (\<exists>e \<in> set ?exs. rule_id e = ''R005'' \<and> exc_txn_id e = txn_id r))
      \<longleftrightarrow> (txn_id r \<noteq> None \<and> match_status r = Some ''UNMATCHED'')"
    by simp
  with sets lists show ?thesis by (simp only: rs simp_thms)
qed

theorem r005_completeness_witness:
  "pipeline pandas_3 0 [line_a, line_b] = Inr scenario_out
   \<and> recon_b \<in> set (reconciliation_results_csv scenario_out)
   \<and> txn_id recon_b = Some ''A1-1''
   \<and> match_status recon_b = Some ''UNMATCHED''
   \<and> (\<exists>e \<in> set (exceptions_report_csv scenario_out).
         rule_id e = ''R005'' \<and> exc_txn_id e = Some ''A1-1'')
   \<and> recon_a \<in> set (reconciliation_results_csv scenario_out)
   \<and> txn_id recon_a = Some ''A1-0''
   \<and> match_status recon_a = Some ''MATCHED''
   \<and> \<not> (\<exists>e \<in> set (exceptions_report_csv scenario_out).
         rule_id e = ''R005'' \<and> exc_txn_id e = Some ''A1-0'')"
proof -
  have b: "recon_b \<in> set (reconciliation_results_csv scenario_out)"
    by (simp add: scenario_reconciled)
  have a: "recon_a \<in> set (reconciliation_results_csv scenario_out)"
    by (simp add: scenario_reconciled)
  have sb: "match_status recon_b = Some ''UNMATCHED''" by (simp add: recon_b_def)
  have sa: "match_status recon_a = Some ''MATCHED''" by (simp add: recon_a_def)
  have ib: "txn_id recon_b = Some ''A1-1''" by (simp add: recon_b_def)
  have ia: "txn_id recon_a = Some ''A1-0''" by (simp add: recon_a_def)
  from r005_completeness[OF scenario_run b] sb ib
  have eb: "\<exists>e \<in> set (exceptions_report_csv scenario_out).
      rule_id e = ''R005'' \<and> exc_txn_id e = Some ''A1-1''"
    by simp
  from r005_completeness[OF scenario_run a] sa ia
  have ea: "\<not> (\<exists>e \<in> set (exceptions_report_csv scenario_out).
      rule_id e = ''R005'' \<and> exc_txn_id e = Some ''A1-0'')"
    by simp
  from scenario_run a b sa sb ia ib ea eb show ?thesis by blast
qed

text \<open>
  Claim C6 (R003 never fires). The master table is derived from the very transactions
  that are reconciled: its customer identifiers are exactly the non-null customer
  identifiers of the transactions. So no transaction has a non-null customer identifier
  outside the master table, and a run that completes holds no R003 exception.
\<close>

theorem r003_never_fires:
  assumes "pipeline rt now rows = Inr out"
  shows "filter (\<lambda>e. rule_id e = ''R003'') (exceptions_report_csv out) = []
       \<and> unknown_customers (transactions_csv out) (master_records_csv out) = []
       \<and> set (map m_customer_id (master_records_csv out))
           = set (map customer_id (transactions_csv out)) - {None}"
proof -
  from assms obtain ts where out: "out = run_steps now ts"
    by (rule pipeline_Inr)
  have "filter (\<lambda>e. rule_id e = ''R003'') (exceptions_report_csv out) = r003 ts (derive_master ts)"
    by (simp only: out run_steps_fields filter_rules)
  also have "\<dots> = []" by (simp add: r003_def unknown_customers_derived)
  finally show ?thesis
    by (simp only: out run_steps_fields unknown_customers_derived set_master_keys simp_thms)
qed

theorem r003_never_fires_witness:
  "pipeline pandas_3 0 [line_a, line_b] = Inr scenario_out
   \<and> filter (\<lambda>e. rule_id e = ''R003'') (exceptions_report_csv scenario_out) = []
   \<and> unknown_customers (transactions_csv scenario_out) (master_records_csv scenario_out) = []"
  using scenario_run r003_never_fires[OF scenario_run] by blast

section \<open>Transaction identifiers and the order of the exception list\<close>

text \<open>
  Claim C7 (uniqueness). The claim is that the identifiers of two different rows always
  differ. The script builds the identifier as the comment of line 29 says, unique by the
  row position, but the sum of line 31 is null as soon as \<^verbatim>\<open>astype(str)\<close> leaves a
  missing invoice missing, as pandas 3 does: two rows without invoice then share the null
  identifier. Where it writes the text \<^verbatim>\<open>nan\<close>, as pandas did before, the same rows get
  different identifiers. By \<open>normalize_txn_id_position\<close> an identifier that is not null
  belongs to one row only, whatever the invoice text is.
\<close>

theorem txn_id_shared_without_invoice:
  "map_sum id (\<lambda>out. map txn_id (transactions_csv out)) (pipeline pandas_3 (0::nat) [line_n, line_n])
     = Inr [None, None]
   \<and> map_sum id (\<lambda>out. map txn_id (transactions_csv out)) (pipeline pandas_2 (0::nat) [line_n, line_n])
     = Inr [Some ''nan-0'', Some ''nan-1'']
   \<and> map_sum id (\<lambda>out. map txn_id (transactions_csv out)) (pipeline pandas_3 (0::nat) [line_a, line_b])
     = Inr [Some ''A1-0'', Some ''A1-1'']"
  by code_simp

text \<open>
  Claim C8 (order of the exception list). For any transaction table and any master table,
  the exception list is its R003 exceptions, followed by its R004 exceptions, followed by
  its R005 exceptions, and nothing else. Each block lists, in the order of the
  transaction table, the transactions that meet the rule: for R003 a customer identifier
  that is not null and not in the master table, for R004 an amount below zero, for R005 a
  customer identifier that is not in the master table. In a run the transaction table
  stands in input order (\<open>pipeline_run_from\<close>, \<open>normalize_nth\<close>).
\<close>

theorem exception_order:
  "exceptions_report_csv (run_from now ts ms) =
       filter (\<lambda>e. rule_id e = ''R003'') (exceptions_report_csv (run_from now ts ms))
     @ filter (\<lambda>e. rule_id e = ''R004'') (exceptions_report_csv (run_from now ts ms))
     @ filter (\<lambda>e. rule_id e = ''R005'') (exceptions_report_csv (run_from now ts ms))
   \<and> map exc_txn_id (filter (\<lambda>e. rule_id e = ''R003'') (exceptions_report_csv (run_from now ts ms)))
       = map txn_id (filter (\<lambda>t. customer_id t \<noteq> None
                                    \<and> \<not> isin (customer_id t) (map m_customer_id ms)) ts)
   \<and> map exc_txn_id (filter (\<lambda>e. rule_id e = ''R004'') (exceptions_report_csv (run_from now ts ms)))
       = map txn_id (filter (\<lambda>t. lt_zero (amount t)) ts)
   \<and> map exc_txn_id (filter (\<lambda>e. rule_id e = ''R005'') (exceptions_report_csv (run_from now ts ms)))
       = map txn_id (filter (\<lambda>t. \<not> isin (customer_id t) (map m_customer_id ms)) ts)"
proof -
  have s3: "map exc_txn_id (r003 ts ms)
      = map txn_id (filter (\<lambda>t. customer_id t \<noteq> None
                                   \<and> \<not> isin (customer_id t) (map m_customer_id ms)) ts)"
    by (simp only: txn_ids_r003 unknown_customers_def)
  have s4: "map exc_txn_id (r004 ts) = map txn_id (filter (\<lambda>t. lt_zero (amount t)) ts)"
    by (simp only: txn_ids_r004 negative_txns_def)
  have s5: "map exc_txn_id (r005 (reconcile ts ms))
      = map txn_id (filter (\<lambda>t. \<not> isin (customer_id t) (map m_customer_id ms)) ts)"
    by (rule r005_unmatched_ids)
  from s3 s4 s5 show ?thesis
    by (simp only: run_from_fields filter_rules simp_thms)
qed

theorem exception_order_witness:
  "map (\<lambda>e. (rule_id e, exc_txn_id e)) (exceptions_report_csv (run_from (0::nat) foreign_txns foreign_master))
     = [(''R003'', Some ''B7-0''), (''R003'', Some ''B7-3''),
        (''R004'', Some ''B7-0''), (''R004'', Some ''B7-2''),
        (''R005'', Some ''B7-0''), (''R005'', Some ''B7-1''), (''R005'', Some ''B7-3'')]
   \<and> map txn_id foreign_txns = [Some ''B7-0'', Some ''B7-1'', Some ''B7-2'', Some ''B7-3'']
   \<and> map exc_txn_id (filter (\<lambda>e. rule_id e = ''R003'')
        (exceptions_report_csv (run_from (0::nat) foreign_txns foreign_master)))
      = [Some ''B7-0'', Some ''B7-3'']
   \<and> map exc_txn_id (filter (\<lambda>e. rule_id e = ''R005'')
        (exceptions_report_csv (run_from (0::nat) foreign_txns foreign_master)))
      = [Some ''B7-0'', Some ''B7-1'', Some ''B7-3'']"
proof -
  have ids: "map txn_id foreign_txns = [Some ''B7-0'', Some ''B7-1'', Some ''B7-2'', Some ''B7-3'']"
    by (simp add: foreign_txns_def txn_of_def)
  have p3: "map txn_id (filter (\<lambda>t. customer_id t \<noteq> None
        \<and> \<not> isin (customer_id t) (map m_customer_id foreign_master)) foreign_txns)
      = [Some ''B7-0'', Some ''B7-3'']"
    by (simp add: foreign_txns_def txn_of_def foreign_master_def make_master_def isin_def)
  have p5: "map txn_id (filter (\<lambda>t. \<not> isin (customer_id t) (map m_customer_id foreign_master))
        foreign_txns)
      = [Some ''B7-0'', Some ''B7-1'', Some ''B7-3'']"
    by (simp add: foreign_txns_def txn_of_def foreign_master_def make_master_def isin_def)
  note c = exception_order[of "0::nat" foreign_txns foreign_master]
  from c p3 have b3: "map exc_txn_id (filter (\<lambda>e. rule_id e = ''R003'')
        (exceptions_report_csv (run_from (0::nat) foreign_txns foreign_master)))
      = [Some ''B7-0'', Some ''B7-3'']"
    by simp
  from c p5 have b5: "map exc_txn_id (filter (\<lambda>e. rule_id e = ''R005'')
        (exceptions_report_csv (run_from (0::nat) foreign_txns foreign_master)))
      = [Some ''B7-0'', Some ''B7-1'', Some ''B7-3'']"
    by simp
  from foreign_exceptions ids b3 b5 show ?thesis by blast
qed

section \<open>The run as a whole\<close>

text \<open>
  Claim C9 (determinism). The transaction, master, reconciliation and exception tables of
  a run are a function of the input rows alone: two runs on the same rows give the same
  four tables (or both raise the same error), whatever the clock reads in either run.
  The data-quality report carries the clock's reading and is left out.
\<close>

theorem determinism:
  "map_sum id four_tables (pipeline rt now rows) = map_sum id four_tables (pipeline rt now' rows)"
  by (cases "normalize rt rows") (simp_all add: pipeline_def four_tables_def run_steps_fields)

theorem determinism_witness:
  "map_sum id four_tables (pipeline pandas_3 (0::nat) [line_a, line_b])
     = map_sum id four_tables (pipeline pandas_3 1 [line_a, line_b])
   \<and> pipeline pandas_3 (0::nat) [line_a, line_b] \<noteq> pipeline pandas_3 1 [line_a, line_b]"
proof -
  have "pipeline pandas_3 (0::nat) [line_a, line_b] \<noteq> pipeline pandas_3 1 [line_a, line_b]"
    by code_simp
  with determinism[of pandas_3 "0::nat" "[line_a, line_b]" 1] show ?thesis by blast
qed

text \<open>
  Claim C10 (abort on a customer identifier that is not an integer). If some input row
  has a customer identifier that is not null and that \<^verbatim>\<open>int\<close> rejects, the run raises:
  its result is an error, and it holds no transaction, master, reconciliation or exception
  table, since line 34 comes before the first file is written.
\<close>

theorem abort_on_bad_customer:
  assumes "r \<in> set rows" and "notnull (r_customer_id r)"
    and "py_int (int_max_str_digits rt) (r_customer_id r) = Inl e"
  shows "\<exists>e'. pipeline rt now rows = Inl e'"
proof -
  from assms(2,3) have "normalize_customer rt (r_customer_id r) = Inl e"
    by (simp add: normalize_customer_def)
  moreover from assms(1) have "r_customer_id r \<in> set (map r_customer_id rows)" by simp
  ultimately obtain e' where "apply_customer rt (map r_customer_id rows) = Inl e'"
    using apply_customer_error by blast
  then have "pipeline rt now rows = Inl e'" by (simp add: pipeline_def normalize_def)
  then show ?thesis ..
qed

theorem abort_on_bad_customer_witness:
  "line_c \<in> set [line_a, line_b, line_c]
   \<and> notnull (r_customer_id line_c)
   \<and> py_int (int_max_str_digits pandas_3) (r_customer_id line_c) = Inl ValueError
   \<and> (\<exists>e'. pipeline pandas_3 (0::nat) [line_a, line_b, line_c] = Inl e')
   \<and> line_a\<lparr>r_customer_id := StrCell [CHR 0x1F, CHR ''7'']\<rparr>
       \<in> set [line_a\<lparr>r_customer_id := StrCell [CHR 0x1F, CHR ''7'']\<rparr>]
   \<and> (\<exists>e'. pipeline pandas_3 (0::nat) [line_a\<lparr>r_customer_id := StrCell [CHR 0x1F, CHR ''7'']\<rparr>]
         = Inl e')"
proof -
  have m: "line_c \<in> set [line_a, line_b, line_c]" by simp
  have n: "notnull (r_customer_id line_c)" by (simp add: line_c_def notnull_def)
  have p: "py_int (int_max_str_digits pandas_3) (r_customer_id line_c) = Inl ValueError"
    by code_simp
  let ?s = "line_a\<lparr>r_customer_id := StrCell [CHR 0x1F, CHR ''7'']\<rparr>"
  have m': "?s \<in> set [?s]" by simp
  have n': "notnull (r_customer_id ?s)" by (simp add: notnull_def)
  have p': "py_int (int_max_str_digits pandas_3) (r_customer_id ?s) = Inl ValueError"
    by code_simp
  from m n p m' abort_on_bad_customer[OF m n p, of "0::nat"]
    abort_on_bad_customer[OF m' n' p', of "0::nat"]
  show ?thesis by blast
qed

section \<open>The data-quality report\<close>

text \<open>
  Claim C5 (duplicates in the data-quality report). The claim is that duplicate customer
  identifiers of the master table and duplicate transaction identifiers appear in the
  report as counts. The script computes both sets of duplicate rows (lines 73 and 74)
  and then writes a report made of null counts alone: for any tables the report has the
  same eleven rows, one per column, and two inputs that differ only in having duplicate
  keys or not give the same report.
\<close>

theorem dq_report_omits_duplicates:
  "map (\<lambda>d. (table_name d, column d)) (dq_report now ms ts)
     = [(''master_records'', ''customer_id''), (''master_records'', ''customer_name''),
        (''master_records'', ''account_status''),
        (''transactions'', ''txn_id''), (''transactions'', ''customer_id''),
        (''transactions'', ''amount''), (''transactions'', ''txn_date''),
        (''transactions'', ''invoice''), (''transactions'', ''stockcode''),
        (''transactions'', ''description''), (''transactions'', ''country'')]
   \<and> dup_master [master_7, master_7] = [master_7, master_7]
   \<and> dup_master [master_7, make_master (Some ''8'')] = []
   \<and> dup_txn [txn_a, txn_a] = [txn_a, txn_a]
   \<and> dup_txn [txn_a, txn_a\<lparr>txn_id := Some ''A1-1''\<rparr>] = []
   \<and> dq_report now [master_7, master_7] [txn_a, txn_a]
       = dq_report now [master_7, make_master (Some ''8'')]
           [txn_a, txn_a\<lparr>txn_id := Some ''A1-1''\<rparr>]"
proof -
  have cols: "map (\<lambda>d. (table_name d, column d)) (dq_report now ms ts)
     = [(''master_records'', ''customer_id''), (''master_records'', ''customer_name''),
        (''master_records'', ''account_status''),
        (''transactions'', ''txn_id''), (''transactions'', ''customer_id''),
        (''transactions'', ''amount''), (''transactions'', ''txn_date''),
        (''transactions'', ''invoice''), (''transactions'', ''stockcode''),
        (''transactions'', ''description''), (''transactions'', ''country'')]"
    by (simp add: dq_report_def check_nulls_def isnull_master_def isnull_transactions_def)
  have m1: "dup_master [master_7, master_7] = [master_7, master_7]"
    by (simp add: dup_master_def)
  have m2: "dup_master [master_7, make_master (Some ''8'')] = []"
    by (simp add: dup_master_def master_7_def make_master_def)
  have t1: "dup_txn [txn_a, txn_a] = [txn_a, txn_a]"
    by (simp add: dup_txn_def)
  have t2: "dup_txn [txn_a, txn_a\<lparr>txn_id := Some ''A1-1''\<rparr>] = []"
    by (simp add: dup_txn_def txn_a_def)
  have r: "dq_report now [master_7, master_7] [txn_a, txn_a]
       = dq_report now [master_7, make_master (Some ''8'')]
           [txn_a, txn_a\<lparr>txn_id := Some ''A1-1''\<rparr>]"
    by (simp add: dq_report_def check_nulls_def isnull_master_def isnull_transactions_def
        master_7_def make_master_def txn_a_def)
  from cols m1 m2 t1 t2 r show ?thesis by blast
qed

end
